theory Spec2Isabelle
  imports Main
begin

section \<open>The host's types\<close>

text \<open>
  The adapter \<^verbatim>\<open>NotebookConcatConverter\<close> (src/client/activation/notebookConcatConverter.ts)
  is written against the editor's object model. Those objects are given primitives: each
  is a record holding the answers the adapter reads from it, its methods as function
  fields. An identity (\<^verbatim>\<open>Uri\<close>) is represented by its string form, which is what the
  source compares (\<^verbatim>\<open>c.uri.toString() === location.uri.toString()\<close>). Line numbers,
  columns, offsets and the version are natural numbers (JavaScript numbers, exact below
  \<open>2 ^ 53\<close>).
\<close>

type_synonym Uri = string
type_synonym RegExp = string
type_synonym DocumentSelector = string

text \<open>A value that may be \<^verbatim>\<open>null\<close> or \<^verbatim>\<open>undefined\<close>; every object is truthy.\<close>

datatype 'a nullable = Null | Undefined | Present 'a

text \<open>
  What the adapter can throw: a \<^verbatim>\<open>TypeError\<close> raised by the runtime (a property read on
  \<^verbatim>\<open>undefined\<close>, \<^verbatim>\<open>reduce\<close> of an empty array with no initial value), or an
  \<^verbatim>\<open>Error\<close> with a message.
\<close>

datatype error = TypeError | Error string

datatype EndOfLine = LF | CRLF

record Position =
  line :: nat
  character :: nat

definition new_Position :: "nat \<Rightarrow> nat \<Rightarrow> Position" where
  "new_Position l c = \<lparr>line = l, character = c\<rparr>"

definition isBefore :: "Position \<Rightarrow> Position \<Rightarrow> bool" where
  "isBefore p q \<longleftrightarrow> line p < line q \<or> (line p = line q \<and> character p < character q)"

text \<open>
  A \<^verbatim>\<open>Range\<close> has the fields \<^verbatim>\<open>start\<close> and \<^verbatim>\<open>end\<close>. The editor's constructor
  \<^verbatim>\<open>new Range(a, b)\<close> orders its two positions: when \<^verbatim>\<open>a\<close> is not before \<^verbatim>\<open>b\<close>
  they are swapped.
\<close>

record Range =
  r_start :: Position
  r_end :: Position

definition new_Range :: "Position \<Rightarrow> Position \<Rightarrow> Range" where
  "new_Range a b =
     (if isBefore a b then \<lparr>r_start = a, r_end = b\<rparr> else \<lparr>r_start = b, r_end = a\<rparr>)"

definition isEmpty :: "Range \<Rightarrow> bool" where
  "isEmpty r \<longleftrightarrow> r_start r = r_end r"

text \<open>
  A \<^verbatim>\<open>Location\<close> is a cell identity with a cell-local range. The source builds one from
  an identity and a position, \<^verbatim>\<open>new Location(cell.uri, position)\<close>; the constructor
  then stores the empty range at that position.
\<close>

record Location =
  loc_uri :: Uri
  loc_range :: Range

definition new_Location :: "Uri \<Rightarrow> Position \<Rightarrow> Location" where
  "new_Location u p = \<lparr>loc_uri = u, loc_range = new_Range p p\<rparr>"

record TextLine =
  lineNumber :: nat
  line_text :: string

text \<open>A cell's own text document: the four members the adapter consumes, and its identity.\<close>

record TextDocument =
  doc_uri :: Uri
  doc_lineCount :: nat
  doc_lineAt :: "Position \<Rightarrow> TextLine"
  doc_positionAt :: "nat \<Rightarrow> Position"
  doc_getWordRangeAtPosition :: "Position \<Rightarrow> RegExp option \<Rightarrow> Range option"

record NotebookCell =
  cell_uri :: Uri
  cell_document :: TextDocument

record NotebookDocument =
  nb_uri :: Uri
  nb_isUntitled :: bool
  nb_isDirty :: bool
  nb_languages :: "string list"
  nb_cells :: "NotebookCell list"

text \<open>
  The concatenation engine (\<^verbatim>\<open>NotebookConcatTextDocument\<close>). Its \<^verbatim>\<open>positionAt\<close> is
  overloaded on an offset or a location, hence the sum type; \<^verbatim>\<open>getText\<close> takes an
  optional range.
\<close>

record NotebookConcatTextDocument =
  concat_isClosed :: bool
  concat_contains :: "Uri \<Rightarrow> bool"
  concat_locationAt :: "Position \<Rightarrow> Location"
  concat_offsetAt :: "Position \<Rightarrow> nat"
  concat_positionAt :: "nat + Location \<Rightarrow> Position"
  concat_getText :: "Range option \<Rightarrow> string"
  concat_validateRange :: "Range \<Rightarrow> Range"
  concat_validatePosition :: "Position \<Rightarrow> Position"

record IVSCodeNotebook =
  createConcatTextDocument :: "NotebookDocument \<Rightarrow> DocumentSelector \<Rightarrow> NotebookConcatTextDocument"

text \<open>
  What the constructor takes from its surroundings: the path functions, the file-name
  template \<^verbatim>\<open>HiddenFileFormatString\<close>, the token that \<^verbatim>\<open>uuid()\<close> draws for this
  construction, and \<^verbatim>\<open>Uri.file\<close>.
\<close>

record Host =
  uri_fsPath :: "Uri \<Rightarrow> string"
  path_dirname :: "string \<Rightarrow> string"
  path_join :: "string \<Rightarrow> string \<Rightarrow> string"
  HiddenFileFormatString_format :: "string \<Rightarrow> string"
  uuid :: string
  Uri_file :: "string \<Rightarrow> Uri"

section \<open>The adapter\<close>

text \<open>The fields of the class; \<^verbatim>\<open>_version\<close> is \<open>version_field\<close>.\<close>

record NotebookConcatConverter =
  firedOpen :: bool
  firedClose :: bool
  notebookDoc :: NotebookDocument
  notebookApi :: IVSCodeNotebook
  concatDocument :: NotebookConcatTextDocument
  dummyFilePath :: string
  dummyUri :: Uri
  version_field :: nat

definition new_NotebookConcatConverter ::
  "Host \<Rightarrow> NotebookDocument \<Rightarrow> IVSCodeNotebook \<Rightarrow> DocumentSelector \<Rightarrow> NotebookConcatConverter" where
  "new_NotebookConcatConverter h nb api selector =
     (let dir = path_dirname h (uri_fsPath h (nb_uri nb));
          file = path_join h dir
                   (HiddenFileFormatString_format h (filter (\<lambda>c. c \<noteq> CHR ''-'') (uuid h)))
      in \<lparr>firedOpen = False, firedClose = False,
          notebookDoc = nb, notebookApi = api,
          concatDocument = createConcatTextDocument api nb selector,
          dummyFilePath = file, dummyUri = Uri_file h file,
          version_field = 1\<rparr>)"

subsection \<open>Properties\<close>

definition notebookUri :: "NotebookConcatConverter \<Rightarrow> Uri" where
  "notebookUri a = nb_uri (notebookDoc a)"

definition uri :: "NotebookConcatConverter \<Rightarrow> Uri" where
  "uri a = dummyUri a"

definition fileName :: "NotebookConcatConverter \<Rightarrow> string" where
  "fileName a = dummyFilePath a"

definition isUntitled :: "NotebookConcatConverter \<Rightarrow> bool" where
  "isUntitled a = nb_isUntitled (notebookDoc a)"

text \<open>\<^verbatim>\<open>languages[0]\<close> is \<^verbatim>\<open>undefined\<close> when the notebook declares no language.\<close>

definition languageId :: "NotebookConcatConverter \<Rightarrow> string nullable" where
  "languageId a = (case nb_languages (notebookDoc a) of [] \<Rightarrow> Undefined | l # _ \<Rightarrow> Present l)"

definition version :: "NotebookConcatConverter \<Rightarrow> nat" where
  "version a = version_field a"

definition isDirty :: "NotebookConcatConverter \<Rightarrow> bool" where
  "isDirty a = nb_isDirty (notebookDoc a)"

definition isClosed :: "NotebookConcatConverter \<Rightarrow> bool" where
  "isClosed a = concat_isClosed (concatDocument a)"

definition eol :: "NotebookConcatConverter \<Rightarrow> EndOfLine" where
  "eol a = LF"

text \<open>
  \<^verbatim>\<open>Array.prototype.reduce\<close> called with no initial value: the first element starts the
  accumulation, and an empty array throws a \<^verbatim>\<open>TypeError\<close>.
\<close>

fun reduce :: "('a \<Rightarrow> 'a \<Rightarrow> 'a) \<Rightarrow> 'a list \<Rightarrow> error + 'a" where
  "reduce f [] = Inl TypeError"
| "reduce f (x # xs) = Inr (foldl f x xs)"

definition lineCount :: "NotebookConcatConverter \<Rightarrow> error + nat" where
  "lineCount a =
     reduce (\<lambda>p c. p + c) (map (\<lambda>c. doc_lineCount (cell_document c)) (nb_cells (notebookDoc a)))"

subsection \<open>Queries\<close>

definition isCellOfDocument :: "NotebookConcatConverter \<Rightarrow> Uri \<Rightarrow> bool" where
  "isCellOfDocument a u = concat_contains (concatDocument a) u"

definition save :: "NotebookConcatConverter \<Rightarrow> error + bool" where
  "save a = Inl (Error ''Not implemented'')"

text \<open>
  \<^verbatim>\<open>cells.find(...)\<close> yields the first cell with the location's identity or
  \<^verbatim>\<open>undefined\<close>; the non-null assertion \<^verbatim>\<open>cell!\<close> is erased at run time, so reading
  \<^verbatim>\<open>.document\<close> of \<^verbatim>\<open>undefined\<close> throws.
\<close>

definition lineAt :: "NotebookConcatConverter \<Rightarrow> Position + nat \<Rightarrow> error + TextLine" where
  "lineAt a posOrNumber =
     (let position = (case posOrNumber of Inr n \<Rightarrow> new_Position n 0 | Inl p \<Rightarrow> p);
          location = concat_locationAt (concatDocument a) position
      in case find (\<lambda>c. cell_uri c = loc_uri location) (nb_cells (notebookDoc a)) of
           None \<Rightarrow> Inl TypeError
         | Some cell \<Rightarrow> Inr (doc_lineAt (cell_document cell) (r_start (loc_range location))))"

definition offsetAt :: "NotebookConcatConverter \<Rightarrow> Position \<Rightarrow> nat" where
  "offsetAt a position = concat_offsetAt (concatDocument a) position"

definition positionAt :: "NotebookConcatConverter \<Rightarrow> nat \<Rightarrow> Position" where
  "positionAt a offset = concat_positionAt (concatDocument a) (Inl offset)"

definition getText :: "NotebookConcatConverter \<Rightarrow> Range option \<Rightarrow> string" where
  "getText a rng =
     (case rng of
        Some r \<Rightarrow> concat_getText (concatDocument a) (Some r)
      | None \<Rightarrow> concat_getText (concatDocument a) None)"

definition getWordRangeAtPosition ::
  "NotebookConcatConverter \<Rightarrow> Position \<Rightarrow> RegExp option \<Rightarrow> error + Range option" where
  "getWordRangeAtPosition a position regexp =
     (let location = concat_locationAt (concatDocument a) position
      in case find (\<lambda>c. cell_uri c = loc_uri location) (nb_cells (notebookDoc a)) of
           None \<Rightarrow> Inl TypeError
         | Some cell \<Rightarrow>
             Inr (doc_getWordRangeAtPosition (cell_document cell) (r_start (loc_range location)) regexp))"

definition validateRange :: "NotebookConcatConverter \<Rightarrow> Range \<Rightarrow> Range" where
  "validateRange a rng = concat_validateRange (concatDocument a) rng"

definition validatePosition :: "NotebookConcatConverter \<Rightarrow> Position \<Rightarrow> Position" where
  "validatePosition a pos = concat_validatePosition (concatDocument a) pos"

text \<open>\<^verbatim>\<open>getConcatDocument\<close> returns either the adapter itself or the cell's document.\<close>

datatype Document = This NotebookConcatConverter | Cell TextDocument

definition getConcatDocument :: "NotebookConcatConverter \<Rightarrow> TextDocument \<Rightarrow> Document" where
  "getConcatDocument a cell = (if isCellOfDocument a (doc_uri cell) then This a else Cell cell)"

subsection \<open>Translation between cell-local and concatenated coordinates\<close>

definition toOutgoingPosition :: "NotebookConcatConverter \<Rightarrow> TextDocument \<Rightarrow> Position \<Rightarrow> Position" where
  "toOutgoingPosition a cell position =
     concat_positionAt (concatDocument a) (Inr (new_Location (doc_uri cell) position))"

definition toOutgoingRange :: "NotebookConcatConverter \<Rightarrow> TextDocument \<Rightarrow> Range \<Rightarrow> Range" where
  "toOutgoingRange a cell cellRange =
     (let startPos = concat_positionAt (concatDocument a)
                       (Inr (new_Location (doc_uri cell) (r_start cellRange)));
          endPos = concat_positionAt (concatDocument a)
                     (Inr (new_Location (doc_uri cell) (r_end cellRange)))
      in new_Range startPos endPos)"

definition toOutgoingOffset :: "NotebookConcatConverter \<Rightarrow> TextDocument \<Rightarrow> nat \<Rightarrow> nat" where
  "toOutgoingOffset a cell offset =
     (let position = doc_positionAt cell offset;
          overallPosition = concat_positionAt (concatDocument a)
                              (Inr (new_Location (doc_uri cell) position))
      in concat_offsetAt (concatDocument a) overallPosition)"

definition toIncomingRange :: "NotebookConcatConverter \<Rightarrow> Range \<Rightarrow> Range" where
  "toIncomingRange a rng =
     (let startLoc = concat_locationAt (concatDocument a) (r_start rng);
          endLoc = concat_locationAt (concatDocument a) (r_end rng)
      in new_Range (r_start (loc_range startLoc)) (r_end (loc_range endLoc)))"

text \<open>
  A content-change record (\<^verbatim>\<open>TextDocumentContentChangeEvent\<close>) and the change events.
  The outgoing event is the object literal the source builds: a document, which is the
  adapter or a cell document, and the rewritten records.
\<close>

record ContentChange =
  ch_range :: Range
  ch_rangeLength :: nat
  ch_rangeOffset :: nat
  ch_text :: string

record TextDocumentChangeEvent =
  ev_document :: TextDocument
  ev_contentChanges :: "ContentChange list"

record OutgoingChangeEvent =
  out_document :: Document
  out_contentChanges :: "ContentChange list"

definition toOutgoingContentChangeEvent ::
  "NotebookConcatConverter \<Rightarrow> TextDocument \<Rightarrow> ContentChange \<Rightarrow> ContentChange" where
  "toOutgoingContentChangeEvent a cell ev =
     \<lparr>ch_range = toOutgoingRange a cell (ch_range ev),
      ch_rangeLength = ch_rangeLength ev,
      ch_rangeOffset = toOutgoingOffset a cell (ch_rangeOffset ev),
      ch_text = ch_text ev\<rparr>"

definition toOutgoingChangeEvent ::
  "NotebookConcatConverter \<Rightarrow> TextDocumentChangeEvent \<Rightarrow> OutgoingChangeEvent" where
  "toOutgoingChangeEvent a cellEvent =
     \<lparr>out_document = getConcatDocument a (ev_document cellEvent),
      out_contentChanges =
        map (toOutgoingContentChangeEvent a (ev_document cellEvent)) (ev_contentChanges cellEvent)\<rparr>"

text \<open>
  A hover, and the spread \<^verbatim>\<open>{...hover, range: r}\<close> as a record update: every field but
  the range is copied. The functions are polymorphic in the record's extension, which
  stands for whatever further fields the object carries.
\<close>

record Hover =
  hover_contents :: "string list"
  hover_range :: "Range nullable"

definition toIncomingHover ::
  "NotebookConcatConverter \<Rightarrow> TextDocument \<Rightarrow> 'm Hover_scheme nullable \<Rightarrow> 'm Hover_scheme nullable" where
  "toIncomingHover a cell hover =
     (case hover of
        Present h \<Rightarrow>
          (case hover_range h of
             Present r \<Rightarrow> Present (h\<lparr>hover_range := Present (toIncomingRange a r)\<rparr>)
           | _ \<Rightarrow> hover)
      | _ \<Rightarrow> hover)"

text \<open>
  A completion item's range is a \<^verbatim>\<open>Range\<close> or a pair of ranges; the source tells them
  apart with \<^verbatim>\<open>instanceof Range\<close>. A completion result is an array of items or a list
  object with an \<^verbatim>\<open>items\<close> array; the source tells them apart with
  \<^verbatim>\<open>Array.isArray\<close>.
\<close>

datatype ItemRange = Simple Range | InsertReplace (inserting: Range) (replacing: Range)

record CompletionItem =
  item_label :: string
  item_range :: "ItemRange nullable"

record 'm CompletionList =
  isIncomplete :: "bool nullable"
  items :: "'m CompletionItem_scheme list"

datatype ('m, 'l) Completions =
  ItemArray "'m CompletionItem_scheme list"
| ItemList "('m, 'l) CompletionList_scheme"

definition toIncomingCompletion ::
  "NotebookConcatConverter \<Rightarrow> 'm CompletionItem_scheme \<Rightarrow> 'm CompletionItem_scheme" where
  "toIncomingCompletion a item =
     (case item_range item of
        Present (Simple r) \<Rightarrow> item\<lparr>item_range := Present (Simple (toIncomingRange a r))\<rparr>
      | Present (InsertReplace i r) \<Rightarrow>
          item\<lparr>item_range := Present (InsertReplace (toIncomingRange a i) (toIncomingRange a r))\<rparr>
      | _ \<Rightarrow> item)"

definition toIncomingCompletions ::
  "NotebookConcatConverter \<Rightarrow> TextDocument \<Rightarrow> ('m, 'l) Completions nullable \<Rightarrow> ('m, 'l) Completions nullable" where
  "toIncomingCompletions a cell completions =
     (case completions of
        Present (ItemArray xs) \<Rightarrow> Present (ItemArray (map (toIncomingCompletion a) xs))
      | Present (ItemList l) \<Rightarrow>
          Present (ItemList (l\<lparr>items := map (toIncomingCompletion a) (items l)\<rparr>))
      | _ \<Rightarrow> completions)"

subsection \<open>The change callback\<close>

definition onDidChange :: "NotebookConcatConverter \<Rightarrow> NotebookConcatConverter" where
  "onDidChange a = a\<lparr>version_field := version_field a + 1\<rparr>"

section \<open>The adapter as a state machine\<close>

text \<open>
  What can happen to an adapter during its life: a property is read, a public method is
  called, one of the two public flags is assigned from outside, or the engine delivers a
  change notification, which runs \<^verbatim>\<open>onDidChange\<close>. \<open>exec\<close> gives the outcome of one
  such step, a thrown error or a returned value, together with the adapter's fields
  afterwards. No method of the class but \<^verbatim>\<open>onDidChange\<close> assigns a field, so every
  other step hands the fields back as they were, also when it throws.
\<close>

datatype call =
    Get_notebookUri
  | Get_uri
  | Get_fileName
  | Get_isUntitled
  | Get_languageId
  | Get_version
  | Get_isDirty
  | Get_isClosed
  | Get_eol
  | Get_lineCount
  | Get_firedOpen
  | Get_firedClose
  | Set_firedOpen bool
  | Set_firedClose bool
  | Call_isCellOfDocument Uri
  | Call_save
  | Call_lineAt "Position + nat"
  | Call_offsetAt Position
  | Call_positionAt nat
  | Call_getText "Range option"
  | Call_getWordRangeAtPosition Position "RegExp option"
  | Call_validateRange Range
  | Call_validatePosition Position
  | Call_getConcatDocument TextDocument
  | Call_toOutgoingChangeEvent TextDocumentChangeEvent
  | Call_toOutgoingPosition TextDocument Position
  | Call_toOutgoingRange TextDocument Range
  | Call_toOutgoingOffset TextDocument nat
  | Call_toIncomingHover TextDocument "Hover nullable"
  | Call_toIncomingCompletions TextDocument "(unit, unit) Completions nullable"
  | Notify

datatype val =
    V_void
  | V_bool bool
  | V_number nat
  | V_string string
  | V_string_opt "string nullable"
  | V_eol EndOfLine
  | V_line TextLine
  | V_position Position
  | V_range Range
  | V_range_opt "Range option"
  | V_document Document
  | V_changeEvent OutgoingChangeEvent
  | V_hover "Hover nullable"
  | V_completions "(unit, unit) Completions nullable"

fun exec :: "NotebookConcatConverter \<Rightarrow> call \<Rightarrow> (error + val) \<times> NotebookConcatConverter" where
  "exec a Get_notebookUri = (Inr (V_string (notebookUri a)), a)"
| "exec a Get_uri = (Inr (V_string (uri a)), a)"
| "exec a Get_fileName = (Inr (V_string (fileName a)), a)"
| "exec a Get_isUntitled = (Inr (V_bool (isUntitled a)), a)"
| "exec a Get_languageId = (Inr (V_string_opt (languageId a)), a)"
| "exec a Get_version = (Inr (V_number (version a)), a)"
| "exec a Get_isDirty = (Inr (V_bool (isDirty a)), a)"
| "exec a Get_isClosed = (Inr (V_bool (isClosed a)), a)"
| "exec a Get_eol = (Inr (V_eol (eol a)), a)"
| "exec a Get_lineCount = (map_sum id V_number (lineCount a), a)"
| "exec a Get_firedOpen = (Inr (V_bool (firedOpen a)), a)"
| "exec a Get_firedClose = (Inr (V_bool (firedClose a)), a)"
| "exec a (Set_firedOpen b) = (Inr V_void, a\<lparr>firedOpen := b\<rparr>)"
| "exec a (Set_firedClose b) = (Inr V_void, a\<lparr>firedClose := b\<rparr>)"
| "exec a (Call_isCellOfDocument u) = (Inr (V_bool (isCellOfDocument a u)), a)"
| "exec a Call_save = (map_sum id V_bool (save a), a)"
| "exec a (Call_lineAt x) = (map_sum id V_line (lineAt a x), a)"
| "exec a (Call_offsetAt p) = (Inr (V_number (offsetAt a p)), a)"
| "exec a (Call_positionAt n) = (Inr (V_position (positionAt a n)), a)"
| "exec a (Call_getText r) = (Inr (V_string (getText a r)), a)"
| "exec a (Call_getWordRangeAtPosition p re) =
     (map_sum id V_range_opt (getWordRangeAtPosition a p re), a)"
| "exec a (Call_validateRange r) = (Inr (V_range (validateRange a r)), a)"
| "exec a (Call_validatePosition p) = (Inr (V_position (validatePosition a p)), a)"
| "exec a (Call_getConcatDocument d) = (Inr (V_document (getConcatDocument a d)), a)"
| "exec a (Call_toOutgoingChangeEvent e) = (Inr (V_changeEvent (toOutgoingChangeEvent a e)), a)"
| "exec a (Call_toOutgoingPosition d p) = (Inr (V_position (toOutgoingPosition a d p)), a)"
| "exec a (Call_toOutgoingRange d r) = (Inr (V_range (toOutgoingRange a d r)), a)"
| "exec a (Call_toOutgoingOffset d n) = (Inr (V_number (toOutgoingOffset a d n)), a)"
| "exec a (Call_toIncomingHover d h) = (Inr (V_hover (toIncomingHover a d h)), a)"
| "exec a (Call_toIncomingCompletions d c) = (Inr (V_completions (toIncomingCompletions a d c)), a)"
| "exec a Notify = (Inr V_void, onDidChange a)"

text \<open>The adapter after a sequence of steps, in order.\<close>

definition run :: "NotebookConcatConverter \<Rightarrow> call list \<Rightarrow> NotebookConcatConverter" where
  "run a cs = foldl (\<lambda>s c. snd (exec s c)) a cs"

section \<open>A concrete notebook\<close>

text \<open>
  A notebook of two cells, \<open>cell:A\<close> with two lines and \<open>cell:B\<close> with three, and an
  engine for it that stacks the cells: concatenated lines 0 and 1 belong to the first
  cell, the lines from 2 on to the second. The theorems below are instantiated on it.
\<close>

definition ex_docA :: TextDocument where
  "ex_docA = \<lparr>doc_uri = ''cell:A'', doc_lineCount = 2,
     doc_lineAt = (\<lambda>p. \<lparr>lineNumber = line p, line_text = ''print(1)''\<rparr>),
     doc_positionAt = (\<lambda>n. \<lparr>line = 0, character = n\<rparr>),
     doc_getWordRangeAtPosition = (\<lambda>p re. None)\<rparr>"

definition ex_docB :: TextDocument where
  "ex_docB = \<lparr>doc_uri = ''cell:B'', doc_lineCount = 3,
     doc_lineAt = (\<lambda>p. \<lparr>lineNumber = line p, line_text = ''print(2)''\<rparr>),
     doc_positionAt = (\<lambda>n. \<lparr>line = 0, character = n\<rparr>),
     doc_getWordRangeAtPosition = (\<lambda>p re. None)\<rparr>"

definition ex_docC :: TextDocument where
  "ex_docC = \<lparr>doc_uri = ''file:///other.py'', doc_lineCount = 1,
     doc_lineAt = (\<lambda>p. \<lparr>lineNumber = line p, line_text = ''pass''\<rparr>),
     doc_positionAt = (\<lambda>n. \<lparr>line = 0, character = n\<rparr>),
     doc_getWordRangeAtPosition = (\<lambda>p re. None)\<rparr>"

definition ex_notebook :: NotebookDocument where
  "ex_notebook = \<lparr>nb_uri = ''file:///dir/nb.ipynb'', nb_isUntitled = False, nb_isDirty = False,
     nb_languages = [''python''],
     nb_cells = [\<lparr>cell_uri = ''cell:A'', cell_document = ex_docA\<rparr>,
                 \<lparr>cell_uri = ''cell:B'', cell_document = ex_docB\<rparr>]\<rparr>"

definition ex_locationAt :: "Position \<Rightarrow> Location" where
  "ex_locationAt p =
     (if line p < 2 then new_Location ''cell:A'' p
      else new_Location ''cell:B'' \<lparr>line = line p - 2, character = character p\<rparr>)"

definition ex_positionAt :: "nat + Location \<Rightarrow> Position" where
  "ex_positionAt x =
     (case x of
        Inl offset \<Rightarrow> \<lparr>line = 0, character = offset\<rparr>
      | Inr l \<Rightarrow>
          if loc_uri l = ''cell:A'' then r_start (loc_range l)
          else if loc_uri l = ''cell:B''
            then \<lparr>line = line (r_start (loc_range l)) + 2,
                  character = character (r_start (loc_range l))\<rparr>
          else \<lparr>line = 0, character = 0\<rparr>)"

definition ex_engine :: NotebookConcatTextDocument where
  "ex_engine = \<lparr>concat_isClosed = False,
     concat_contains = (\<lambda>u. u = ''cell:A'' \<or> u = ''cell:B''),
     concat_locationAt = ex_locationAt,
     concat_offsetAt = (\<lambda>p. 10 * line p + character p),
     concat_positionAt = ex_positionAt,
     concat_getText = (\<lambda>r. ''print(1)''),
     concat_validateRange = (\<lambda>r. r),
     concat_validatePosition = (\<lambda>p. p)\<rparr>"

definition ex_api :: IVSCodeNotebook where
  "ex_api = \<lparr>createConcatTextDocument = (\<lambda>nb selector. ex_engine)\<rparr>"

definition ex_host :: Host where
  "ex_host = \<lparr>uri_fsPath = (\<lambda>u. ''/dir/nb.ipynb''), path_dirname = (\<lambda>p. ''/dir''),
     path_join = (\<lambda>d f. d @ ''/'' @ f),
     HiddenFileFormatString_format = (\<lambda>t. ''_HiddenFile_'' @ t @ ''.py''),
     uuid = ''1b9d-6bcd'', Uri_file = (\<lambda>p. ''file://'' @ p)\<rparr>"

definition ex_adapter :: NotebookConcatConverter where
  "ex_adapter = new_NotebookConcatConverter ex_host ex_notebook ex_api ''python''"

text \<open>The same adapter over a notebook that has lost its cells.\<close>

definition ex_empty :: NotebookConcatConverter where
  "ex_empty = new_NotebookConcatConverter ex_host (ex_notebook\<lparr>nb_cells := []\<rparr>) ex_api ''python''"

text \<open>
  A range of the concatenated document that lies in the second cell, and the same range
  in that cell's coordinates; a change event and a completion list that carry them.
\<close>

definition ex_range :: Range where
  "ex_range = \<lparr>r_start = \<lparr>line = 2, character = 5\<rparr>, r_end = \<lparr>line = 3, character = 4\<rparr>\<rparr>"

definition ex_range_local :: Range where
  "ex_range_local = \<lparr>r_start = \<lparr>line = 0, character = 5\<rparr>, r_end = \<lparr>line = 1, character = 4\<rparr>\<rparr>"

definition ex_event :: TextDocumentChangeEvent where
  "ex_event = \<lparr>ev_document = ex_docB,
     ev_contentChanges =
       [\<lparr>ch_range = ex_range_local, ch_rangeLength = 9, ch_rangeOffset = 5, ch_text = ''x = 2''\<rparr>]\<rparr>"

definition ex_list :: "unit CompletionList" where
  "ex_list = \<lparr>isIncomplete = Present True,
     items = [\<lparr>item_label = ''abs'', item_range = Present (Simple ex_range)\<rparr>,
              \<lparr>item_label = ''all'', item_range = Present (InsertReplace ex_range ex_range)\<rparr>,
              \<lparr>item_label = ''any'', item_range = Undefined\<rparr>]\<rparr>"

section \<open>Facts about the concrete notebook\<close>

lemma ex_adapter_simps:
  "notebookDoc ex_adapter = ex_notebook"
  "concatDocument ex_adapter = ex_engine"
  "version_field ex_adapter = 1"
  by (simp_all add: ex_adapter_def new_NotebookConcatConverter_def Let_def ex_api_def)

lemma ex_empty_simps:
  "nb_cells (notebookDoc ex_empty) = []"
  "concatDocument ex_empty = ex_engine"
  by (simp_all add: ex_empty_def new_NotebookConcatConverter_def Let_def ex_api_def)

lemma toIncomingRange_ex: "toIncomingRange ex_adapter ex_range = ex_range_local"
  by (simp add: toIncomingRange_def ex_adapter_simps ex_engine_def ex_locationAt_def
      new_Location_def new_Range_def isBefore_def ex_range_def ex_range_local_def)

lemma toOutgoingRange_ex: "toOutgoingRange ex_adapter ex_docB ex_range_local = ex_range"
  by (simp add: toOutgoingRange_def ex_adapter_simps ex_engine_def ex_positionAt_def
      new_Location_def new_Range_def isBefore_def ex_range_def ex_range_local_def ex_docB_def)

lemma toOutgoingOffset_ex: "toOutgoingOffset ex_adapter ex_docB 5 = 25"
  by (simp add: toOutgoingOffset_def ex_adapter_simps ex_engine_def ex_positionAt_def
      new_Location_def new_Range_def isBefore_def ex_docB_def)

section \<open>The line count\<close>

lemma foldl_plus_sum_list: "foldl (\<lambda>p c. p + c) (x::nat) xs = x + sum_list xs"
  by (induction xs arbitrary: x) simp_all

text \<open>
  On a notebook with at least one cell, \<^verbatim>\<open>lineCount\<close> is the sum of the cells' line
  counts, whatever the adapter's other fields are: it is computed from the cells the
  notebook has at the moment of the read.
\<close>

lemma lineCount_nonempty:
  "nb_cells (notebookDoc a) \<noteq> [] \<Longrightarrow>
   lineCount a =
     Inr (sum_list (map (\<lambda>c. doc_lineCount (cell_document c)) (nb_cells (notebookDoc a))))"
  by (cases "nb_cells (notebookDoc a)") (simp_all add: lineCount_def foldl_plus_sum_list)

lemma lineCount_ex_adapter: "lineCount ex_adapter = Inr 5"
  by (simp add: lineCount_def ex_adapter_simps ex_notebook_def ex_docA_def ex_docB_def)

text \<open>
  C3. For every notebook state with cells C1..Cn, \<^verbatim>\<open>lineCount\<close> returns the sum of the
  cells' line counts. The source sums with \<^verbatim>\<open>reduce\<close> and gives it no initial value, so
  the notebook with no cell, whose line counts sum to 0, makes the read throw instead of
  returning 0; the claim holds from one cell on (\<open>lineCount_nonempty\<close>). The theorem
  evaluates the source on the notebook without cells.
\<close>

theorem lineCount_empty_notebook:
  "sum_list (map (\<lambda>c. doc_lineCount (cell_document c)) (nb_cells (notebookDoc ex_empty))) = 0 \<and>
   lineCount ex_empty = Inl TypeError"
  by (simp add: lineCount_def ex_empty_simps)

text \<open>
  C10. For a notebook whose cell list is empty, reading \<^verbatim>\<open>lineCount\<close> fails with an
  unchecked error and does not return 0.
\<close>

theorem lineCount_empty_throws:
  "nb_cells (notebookDoc a) = [] \<Longrightarrow> lineCount a = Inl TypeError \<and> lineCount a \<noteq> Inr 0"
  by (simp add: lineCount_def)

theorem lineCount_empty_throws_witness:
  "nb_cells (notebookDoc (ex_adapter\<lparr>notebookDoc := ex_notebook\<lparr>nb_cells := []\<rparr>\<rparr>)) = [] \<and>
   lineCount (ex_adapter\<lparr>notebookDoc := ex_notebook\<lparr>nb_cells := []\<rparr>\<rparr>) = Inl TypeError"
  using lineCount_empty_throws [of "ex_adapter\<lparr>notebookDoc := ex_notebook\<lparr>nb_cells := []\<rparr>\<rparr>"]
  by simp

section \<open>The version counter\<close>

lemma version_new: "version (new_NotebookConcatConverter h nb api sel) = 1"
  by (simp add: version_def new_NotebookConcatConverter_def Let_def)

lemma version_exec:
  "version (snd (exec a c)) = (if c = Notify then version a + 1 else version a)"
  by (cases c) (simp_all add: version_def onDidChange_def)

lemma version_run: "version (run a cs) = version a + count_list cs Notify"
proof (induction cs arbitrary: a)
  case Nil
  show ?case by (simp add: run_def)
next
  case (Cons c cs)
  have "run a (c # cs) = run (snd (exec a c)) cs" by (simp add: run_def)
  then show ?case using Cons.IH [of "snd (exec a c)"] by (simp add: version_exec)
qed

text \<open>
  C2. \<^verbatim>\<open>version\<close> is 1 right after construction. A step of the adapter adds 1 to it
  when the step is a change notification and leaves it alone otherwise, so it never
  decreases; after \<open>n\<close> notifications it is \<open>1 + n\<close>, and after any sequence of steps
  it is 1 plus the number of notifications among them.
\<close>

theorem version_counter:
  "version (new_NotebookConcatConverter h nb api sel) = 1 \<and>
   version (snd (exec a c)) = (if c = Notify then version a + 1 else version a) \<and>
   version a \<le> version (snd (exec a c)) \<and>
   version ((onDidChange ^^ n) (new_NotebookConcatConverter h nb api sel)) = 1 + n \<and>
   version (run (new_NotebookConcatConverter h nb api sel) cs) = 1 + count_list cs Notify \<and>
   version a \<le> version (run a cs)"
proof -
  have "version ((onDidChange ^^ n) b) = version b + n" for b
    by (induction n) (simp_all add: version_def onDidChange_def)
  then show ?thesis
    by (simp add: version_new version_exec version_run)
qed

theorem version_counter_witness:
  "version ex_adapter = 1 \<and>
   version (snd (exec ex_adapter Notify)) = 2 \<and>
   version (snd (exec ex_adapter Call_save)) = 1 \<and>
   version (run ex_adapter [Notify, Get_lineCount, Notify, Call_save, Set_firedOpen True, Notify]) = 4"
  using version_counter [of ex_host ex_notebook ex_api "''python''" ex_adapter Notify 0
      "[Notify, Get_lineCount, Notify, Call_save, Set_firedOpen True, Notify]"]
    version_counter [of ex_host ex_notebook ex_api "''python''" ex_adapter Call_save 0 "[]"]
  by (simp add: ex_adapter_def)

section \<open>Queries\<close>

text \<open>
  C5. \<^verbatim>\<open>save()\<close> throws on every adapter, hence after any sequence of earlier steps; it
  returns no value and leaves every field of the adapter as it was.
\<close>

theorem save_throws:
  "save a = Inl (Error ''Not implemented'') \<and>
   exec a Call_save = (Inl (Error ''Not implemented''), a) \<and>
   exec (run a cs) Call_save = (Inl (Error ''Not implemented''), run a cs)"
  by (simp add: save_def)

theorem save_throws_witness:
  "exec (run ex_adapter [Notify, Set_firedClose True]) Call_save =
     (Inl (Error ''Not implemented''), run ex_adapter [Notify, Set_firedClose True])"
  using save_throws [of ex_adapter "[Notify, Set_firedClose True]"]
  by simp

text \<open>
  C6. \<^verbatim>\<open>getConcatDocument(d)\<close> is the adapter itself when \<^verbatim>\<open>isCellOfDocument(d.uri)\<close>
  holds and \<^verbatim>\<open>d\<close> itself otherwise, and \<^verbatim>\<open>isCellOfDocument(id)\<close> holds exactly when
  the engine's \<^verbatim>\<open>contains(id)\<close> does.
\<close>

theorem getConcatDocument_spec:
  "(isCellOfDocument a (doc_uri d) \<longrightarrow> getConcatDocument a d = This a) \<and>
   (\<not> isCellOfDocument a (doc_uri d) \<longrightarrow> getConcatDocument a d = Cell d) \<and>
   (isCellOfDocument a u \<longleftrightarrow> concat_contains (concatDocument a) u)"
  by (simp add: getConcatDocument_def isCellOfDocument_def)

theorem getConcatDocument_spec_witness:
  "isCellOfDocument ex_adapter (doc_uri ex_docA) \<and>
   getConcatDocument ex_adapter ex_docA = This ex_adapter \<and>
   \<not> isCellOfDocument ex_adapter (doc_uri ex_docC) \<and>
   getConcatDocument ex_adapter ex_docC = Cell ex_docC"
  using getConcatDocument_spec [of ex_adapter ex_docA "''cell:A''"]
    getConcatDocument_spec [of ex_adapter ex_docC "''file:///other.py''"]
  by (simp add: ex_adapter_simps ex_engine_def ex_docA_def ex_docC_def)

text \<open>
  C4. \<^verbatim>\<open>lineAt\<close> of a line number is \<^verbatim>\<open>lineAt\<close> of the position at that line and column
  0. With the location the engine gives for the position: when no cell of the notebook
  has the location's identity, \<^verbatim>\<open>lineAt\<close> throws; when some cell has it, \<^verbatim>\<open>lineAt\<close>
  returns the line that the first such cell's document gives at the start of the
  location's range.
\<close>

theorem lineAt_spec:
  "lineAt a (Inr n) = lineAt a (Inl \<lparr>line = n, character = 0\<rparr>) \<and>
   ((\<forall>c \<in> set (nb_cells (notebookDoc a)).
        cell_uri c \<noteq> loc_uri (concat_locationAt (concatDocument a) p)) \<longrightarrow>
      lineAt a (Inl p) = Inl TypeError) \<and>
   ((\<exists>c \<in> set (nb_cells (notebookDoc a)).
        cell_uri c = loc_uri (concat_locationAt (concatDocument a) p)) \<longrightarrow>
      (\<exists>i < length (nb_cells (notebookDoc a)).
         cell_uri (nb_cells (notebookDoc a) ! i) = loc_uri (concat_locationAt (concatDocument a) p) \<and>
         (\<forall>j < i. cell_uri (nb_cells (notebookDoc a) ! j)
                     \<noteq> loc_uri (concat_locationAt (concatDocument a) p)) \<and>
         lineAt a (Inl p) =
           Inr (doc_lineAt (cell_document (nb_cells (notebookDoc a) ! i))
                  (r_start (loc_range (concat_locationAt (concatDocument a) p))))))"
proof (intro conjI impI)
  show "lineAt a (Inr n) = lineAt a (Inl \<lparr>line = n, character = 0\<rparr>)"
    by (simp add: lineAt_def new_Position_def)
next
  let ?u = "loc_uri (concat_locationAt (concatDocument a) p)"
  assume "\<forall>c \<in> set (nb_cells (notebookDoc a)). cell_uri c \<noteq> ?u"
  then have "find (\<lambda>c. cell_uri c = ?u) (nb_cells (notebookDoc a)) = None"
    by (simp add: find_None_iff)
  then show "lineAt a (Inl p) = Inl TypeError"
    by (simp add: lineAt_def)
next
  let ?u = "loc_uri (concat_locationAt (concatDocument a) p)"
  let ?cs = "nb_cells (notebookDoc a)"
  assume "\<exists>c \<in> set ?cs. cell_uri c = ?u"
  then obtain c where c: "find (\<lambda>c. cell_uri c = ?u) ?cs = Some c"
    by (cases "find (\<lambda>c. cell_uri c = ?u) ?cs") (auto simp: find_None_iff)
  then obtain i where i: "i < length ?cs" "cell_uri (?cs ! i) = ?u" "c = ?cs ! i"
      "\<forall>j < i. cell_uri (?cs ! j) \<noteq> ?u"
    unfolding find_Some_iff by blast
  have "lineAt a (Inl p) =
      Inr (doc_lineAt (cell_document (?cs ! i))
             (r_start (loc_range (concat_locationAt (concatDocument a) p))))"
    using c i(3) by (simp add: lineAt_def)
  with i show "\<exists>i < length ?cs. cell_uri (?cs ! i) = ?u \<and> (\<forall>j < i. cell_uri (?cs ! j) \<noteq> ?u) \<and>
      lineAt a (Inl p) =
        Inr (doc_lineAt (cell_document (?cs ! i))
               (r_start (loc_range (concat_locationAt (concatDocument a) p))))"
    by blast
qed

theorem lineAt_spec_witness:
  "lineAt ex_adapter (Inr 3) = Inr \<lparr>lineNumber = 1, line_text = ''print(2)''\<rparr> \<and>
   lineAt ex_empty (Inr 3) = Inl TypeError"
proof -
  let ?p = "\<lparr>line = 3, character = 0\<rparr>"
  let ?cs = "nb_cells (notebookDoc ex_adapter)"
  let ?L = "concat_locationAt (concatDocument ex_adapter) ?p"
  have cs: "?cs = [\<lparr>cell_uri = ''cell:A'', cell_document = ex_docA\<rparr>,
                   \<lparr>cell_uri = ''cell:B'', cell_document = ex_docB\<rparr>]"
    by (simp add: ex_adapter_simps ex_notebook_def)
  have L: "?L = \<lparr>loc_uri = ''cell:B'',
      loc_range = \<lparr>r_start = \<lparr>line = 1, character = 0\<rparr>, r_end = \<lparr>line = 1, character = 0\<rparr>\<rparr>\<rparr>"
    by (simp add: ex_adapter_simps ex_engine_def ex_locationAt_def new_Location_def
        new_Range_def isBefore_def)
  have found: "\<exists>c \<in> set ?cs. cell_uri c = loc_uri ?L"
    unfolding cs L by simp
  from lineAt_spec [of ex_adapter 3 ?p] found
  obtain i where i: "i < length ?cs" "cell_uri (?cs ! i) = loc_uri ?L"
      "lineAt ex_adapter (Inl ?p) =
         Inr (doc_lineAt (cell_document (?cs ! i)) (r_start (loc_range ?L)))"
    by blast
  from i(1) have "i = 0 \<or> i = 1" unfolding cs by auto
  with i(2) have "i = 1" unfolding cs L by auto
  with i(3) have "lineAt ex_adapter (Inl ?p) = Inr \<lparr>lineNumber = 1, line_text = ''print(2)''\<rparr>"
    unfolding cs L by (simp add: ex_docB_def)
  moreover from lineAt_spec [of ex_adapter 3 ?p]
  have "lineAt ex_adapter (Inr 3) = lineAt ex_adapter (Inl ?p)" by blast
  moreover from lineAt_spec [of ex_empty 3 ?p]
  have "lineAt ex_empty (Inr 3) = lineAt ex_empty (Inl ?p)"
    and "lineAt ex_empty (Inl ?p) = Inl TypeError"
    by (simp_all add: ex_empty_simps)
  ultimately show ?thesis by simp
qed

section \<open>Translation\<close>

lemma new_Range_same: "new_Range p p = \<lparr>r_start = p, r_end = p\<rparr>"
  by (simp add: new_Range_def isBefore_def)

lemma isEmpty_new_Range: "isEmpty r \<Longrightarrow> new_Range (r_start r) (r_end r) = r"
  by (simp add: isEmpty_def new_Range_same)

text \<open>
  C1. Let the engine's \<^verbatim>\<open>locationAt\<close> and \<^verbatim>\<open>positionAt\<close> be inverse to each other at
  the concatenated position \<open>P\<close>: \<^verbatim>\<open>locationAt\<close> answers \<open>P\<close> with the location of a
  position, that is a cell identity with an empty range, and \<^verbatim>\<open>positionAt\<close> takes that
  location back to \<open>P\<close>. Then \<^verbatim>\<open>toIncomingRange\<close> of the zero-width range at \<open>P\<close>,
  followed by \<^verbatim>\<open>toOutgoingPosition\<close> of the resulting start with the cell that has the
  location's identity, returns \<open>P\<close>. The adapter hands the engine the start of the
  location's range only, which is why the location has to be that of a position.
\<close>

theorem roundtrip:
  assumes inv: "concat_positionAt (concatDocument a) (Inr (concat_locationAt (concatDocument a) P)) = P"
    and pos: "isEmpty (loc_range (concat_locationAt (concatDocument a) P))"
    and cell: "doc_uri cell = loc_uri (concat_locationAt (concatDocument a) P)"
  shows "toOutgoingPosition a cell (r_start (toIncomingRange a (new_Range P P))) = P"
proof -
  let ?L = "concat_locationAt (concatDocument a) P"
  have s: "r_start (toIncomingRange a (new_Range P P)) = r_start (loc_range ?L)"
    using pos by (simp add: toIncomingRange_def new_Range_same isEmpty_new_Range)
  have "new_Range (r_start (loc_range ?L)) (r_start (loc_range ?L)) = loc_range ?L"
    using pos by (simp add: new_Range_same isEmpty_def)
  then have "new_Location (doc_uri cell) (r_start (loc_range ?L)) = ?L"
    using cell by (simp add: new_Location_def)
  then show ?thesis
    using inv by (simp add: toOutgoingPosition_def s)
qed

theorem roundtrip_witness:
  "concat_positionAt (concatDocument ex_adapter)
     (Inr (concat_locationAt (concatDocument ex_adapter) \<lparr>line = 3, character = 4\<rparr>))
     = \<lparr>line = 3, character = 4\<rparr> \<and>
   isEmpty (loc_range (concat_locationAt (concatDocument ex_adapter) \<lparr>line = 3, character = 4\<rparr>)) \<and>
   doc_uri ex_docB = loc_uri (concat_locationAt (concatDocument ex_adapter) \<lparr>line = 3, character = 4\<rparr>) \<and>
   r_start (toIncomingRange ex_adapter (new_Range \<lparr>line = 3, character = 4\<rparr> \<lparr>line = 3, character = 4\<rparr>))
     = \<lparr>line = 1, character = 4\<rparr> \<and>
   toOutgoingPosition ex_adapter ex_docB
     (r_start (toIncomingRange ex_adapter (new_Range \<lparr>line = 3, character = 4\<rparr> \<lparr>line = 3, character = 4\<rparr>)))
     = \<lparr>line = 3, character = 4\<rparr>"
proof -
  let ?P = "\<lparr>line = 3, character = 4\<rparr>"
  have L: "concat_locationAt (concatDocument ex_adapter) ?P =
      \<lparr>loc_uri = ''cell:B'',
       loc_range = \<lparr>r_start = \<lparr>line = 1, character = 4\<rparr>, r_end = \<lparr>line = 1, character = 4\<rparr>\<rparr>\<rparr>"
    by (simp add: ex_adapter_simps ex_engine_def ex_locationAt_def new_Location_def new_Range_same)
  have h1: "concat_positionAt (concatDocument ex_adapter)
      (Inr (concat_locationAt (concatDocument ex_adapter) ?P)) = ?P"
    unfolding L by (simp add: ex_adapter_simps ex_engine_def ex_positionAt_def)
  have h2: "isEmpty (loc_range (concat_locationAt (concatDocument ex_adapter) ?P))"
    unfolding L by (simp add: isEmpty_def)
  have h3: "doc_uri ex_docB = loc_uri (concat_locationAt (concatDocument ex_adapter) ?P)"
    unfolding L by (simp add: ex_docB_def)
  have h4: "r_start (toIncomingRange ex_adapter (new_Range ?P ?P)) = \<lparr>line = 1, character = 4\<rparr>"
    by (simp add: toIncomingRange_def new_Range_same L)
  from roundtrip [OF h1 h2 h3] h1 h2 h3 h4 show ?thesis by simp
qed

text \<open>
  C8. \<^verbatim>\<open>toOutgoingChangeEvent(e)\<close> has the document \<^verbatim>\<open>getConcatDocument(e.document)\<close>
  and as many content-change records as \<open>e\<close>, in the same order; each record keeps the
  text and the range length of the original, its range is \<^verbatim>\<open>toOutgoingRange\<close> of the
  original's and its range offset \<^verbatim>\<open>toOutgoingOffset\<close> of the original's.
\<close>

theorem toOutgoingChangeEvent_spec:
  "out_document (toOutgoingChangeEvent a e) = getConcatDocument a (ev_document e) \<and>
   length (out_contentChanges (toOutgoingChangeEvent a e)) = length (ev_contentChanges e) \<and>
   (\<forall>i < length (ev_contentChanges e).
      ch_text (out_contentChanges (toOutgoingChangeEvent a e) ! i) = ch_text (ev_contentChanges e ! i) \<and>
      ch_rangeLength (out_contentChanges (toOutgoingChangeEvent a e) ! i)
        = ch_rangeLength (ev_contentChanges e ! i) \<and>
      ch_range (out_contentChanges (toOutgoingChangeEvent a e) ! i)
        = toOutgoingRange a (ev_document e) (ch_range (ev_contentChanges e ! i)) \<and>
      ch_rangeOffset (out_contentChanges (toOutgoingChangeEvent a e) ! i)
        = toOutgoingOffset a (ev_document e) (ch_rangeOffset (ev_contentChanges e ! i)))"
  by (simp add: toOutgoingChangeEvent_def toOutgoingContentChangeEvent_def)

theorem toOutgoingChangeEvent_spec_witness:
  "out_document (toOutgoingChangeEvent ex_adapter ex_event) = This ex_adapter \<and>
   length (out_contentChanges (toOutgoingChangeEvent ex_adapter ex_event)) = 1 \<and>
   ch_text (out_contentChanges (toOutgoingChangeEvent ex_adapter ex_event) ! 0) = ''x = 2'' \<and>
   ch_rangeLength (out_contentChanges (toOutgoingChangeEvent ex_adapter ex_event) ! 0) = 9 \<and>
   ch_range (out_contentChanges (toOutgoingChangeEvent ex_adapter ex_event) ! 0) = ex_range \<and>
   ch_rangeOffset (out_contentChanges (toOutgoingChangeEvent ex_adapter ex_event) ! 0) = 25"
proof -
  have len: "0 < length (ev_contentChanges ex_event)" by (simp add: ex_event_def)
  have doc: "getConcatDocument ex_adapter ex_docB = This ex_adapter"
    by (simp add: getConcatDocument_def isCellOfDocument_def ex_adapter_simps ex_engine_def
        ex_docB_def)
  from toOutgoingChangeEvent_spec [of ex_adapter ex_event] len
  have "out_document (toOutgoingChangeEvent ex_adapter ex_event)
          = getConcatDocument ex_adapter (ev_document ex_event)"
    and "length (out_contentChanges (toOutgoingChangeEvent ex_adapter ex_event))
          = length (ev_contentChanges ex_event)"
    and "ch_text (out_contentChanges (toOutgoingChangeEvent ex_adapter ex_event) ! 0)
          = ch_text (ev_contentChanges ex_event ! 0)"
    and "ch_rangeLength (out_contentChanges (toOutgoingChangeEvent ex_adapter ex_event) ! 0)
          = ch_rangeLength (ev_contentChanges ex_event ! 0)"
    and "ch_range (out_contentChanges (toOutgoingChangeEvent ex_adapter ex_event) ! 0)
          = toOutgoingRange ex_adapter (ev_document ex_event) (ch_range (ev_contentChanges ex_event ! 0))"
    and "ch_rangeOffset (out_contentChanges (toOutgoingChangeEvent ex_adapter ex_event) ! 0)
          = toOutgoingOffset ex_adapter (ev_document ex_event)
              (ch_rangeOffset (ev_contentChanges ex_event ! 0))"
    by blast+
  then show ?thesis
    by (simp add: doc ex_event_def toOutgoingRange_ex toOutgoingOffset_ex)
qed

text \<open>
  C7. \<^verbatim>\<open>toIncomingHover\<close> returns a \<^verbatim>\<open>null\<close> or \<^verbatim>\<open>undefined\<close> hover, and a hover whose
  range is \<^verbatim>\<open>null\<close> or \<^verbatim>\<open>undefined\<close>, as it is. A hover with a range comes back with
  the range rewritten by \<^verbatim>\<open>toIncomingRange\<close>; in every case the other fields of the
  result are those of the hover passed in.
\<close>

theorem toIncomingHover_spec:
  "toIncomingHover a cell Null = Null \<and>
   toIncomingHover a cell Undefined = Undefined \<and>
   (hover_range h = Null \<or> hover_range h = Undefined \<longrightarrow>
      toIncomingHover a cell (Present h) = Present h) \<and>
   (hover_range h = Present r \<longrightarrow>
      toIncomingHover a cell (Present h) = Present (h\<lparr>hover_range := Present (toIncomingRange a r)\<rparr>)) \<and>
   (\<forall>h'. toIncomingHover a cell (Present h) = Present h' \<longrightarrow>
      hover_contents h' = hover_contents h \<and> Hover.more h' = Hover.more h \<and>
      h'\<lparr>hover_range := hover_range h\<rparr> = h)"
  by (auto simp: toIncomingHover_def split: nullable.splits)

theorem toIncomingHover_spec_witness:
  "toIncomingHover ex_adapter ex_docB
     (Present \<lparr>hover_contents = [''int''], hover_range = (Null :: Range nullable)\<rparr>)
     = Present \<lparr>hover_contents = [''int''], hover_range = Null\<rparr> \<and>
   toIncomingHover ex_adapter ex_docB
     (Present \<lparr>hover_contents = [''int''], hover_range = Present ex_range\<rparr>)
     = Present \<lparr>hover_contents = [''int''], hover_range = Present ex_range_local\<rparr>"
  using toIncomingHover_spec [of ex_adapter ex_docB
      "\<lparr>hover_contents = [''int''], hover_range = Null\<rparr>" ex_range]
    toIncomingHover_spec [of ex_adapter ex_docB
      "\<lparr>hover_contents = [''int''], hover_range = Present ex_range\<rparr>" ex_range]
  by (auto simp: toIncomingRange_ex)

text \<open>
  C9. \<^verbatim>\<open>toIncomingCompletions\<close> of a list object returns a list object whose fields
  other than \<^verbatim>\<open>items\<close> are those of the original and whose items are the images of
  the original's under \<^verbatim>\<open>toIncomingCompletion\<close>, in order. \<^verbatim>\<open>toIncomingCompletion\<close>
  rewrites a simple range by \<^verbatim>\<open>toIncomingRange\<close>, each range of an inserting/replacing
  pair by \<^verbatim>\<open>toIncomingRange\<close>, returns an item with no range as it is, and never
  changes another field of the item.
\<close>

theorem toIncomingCompletions_spec:
  "(\<exists>l'. toIncomingCompletions a cell (Present (ItemList l)) = Present (ItemList l') \<and>
         items l' = map (toIncomingCompletion a) (items l) \<and>
         isIncomplete l' = isIncomplete l \<and>
         CompletionList.more l' = CompletionList.more l \<and>
         l'\<lparr>items := items l\<rparr> = l) \<and>
   (item_range i = Present (Simple r) \<longrightarrow>
      toIncomingCompletion a i = i\<lparr>item_range := Present (Simple (toIncomingRange a r))\<rparr>) \<and>
   (item_range i = Present (InsertReplace ins rep) \<longrightarrow>
      toIncomingCompletion a i =
        i\<lparr>item_range := Present (InsertReplace (toIncomingRange a ins) (toIncomingRange a rep))\<rparr>) \<and>
   (item_range i = Null \<or> item_range i = Undefined \<longrightarrow> toIncomingCompletion a i = i) \<and>
   item_label (toIncomingCompletion a i) = item_label i \<and>
   CompletionItem.more (toIncomingCompletion a i) = CompletionItem.more i \<and>
   (toIncomingCompletion a i)\<lparr>item_range := item_range i\<rparr> = i"
  by (auto simp: toIncomingCompletions_def toIncomingCompletion_def
      split: nullable.splits ItemRange.splits)

theorem toIncomingCompletions_spec_witness:
  "toIncomingCompletions ex_adapter ex_docB (Present (ItemList ex_list)) =
     Present (ItemList \<lparr>isIncomplete = Present True,
       items = [\<lparr>item_label = ''abs'', item_range = Present (Simple ex_range_local)\<rparr>,
                \<lparr>item_label = ''all'',
                 item_range = Present (InsertReplace ex_range_local ex_range_local)\<rparr>,
                \<lparr>item_label = ''any'', item_range = Undefined\<rparr>]\<rparr>)"
proof -
  let ?i1 = "\<lparr>item_label = ''abs'', item_range = Present (Simple ex_range)\<rparr>"
  let ?i2 = "\<lparr>item_label = ''all'', item_range = Present (InsertReplace ex_range ex_range)\<rparr>"
  let ?i3 = "\<lparr>item_label = ''any'', item_range = (Undefined :: ItemRange nullable)\<rparr>"
  have i1: "toIncomingCompletion ex_adapter ?i1 =
      \<lparr>item_label = ''abs'', item_range = Present (Simple ex_range_local)\<rparr>"
    using toIncomingCompletions_spec [of ex_adapter ex_docB ex_list ?i1 ex_range ex_range ex_range]
    by (simp add: toIncomingRange_ex)
  have i2: "toIncomingCompletion ex_adapter ?i2 =
      \<lparr>item_label = ''all'', item_range = Present (InsertReplace ex_range_local ex_range_local)\<rparr>"
    using toIncomingCompletions_spec [of ex_adapter ex_docB ex_list ?i2 ex_range ex_range ex_range]
    by (simp add: toIncomingRange_ex)
  have i3: "toIncomingCompletion ex_adapter ?i3 = ?i3"
    using toIncomingCompletions_spec [of ex_adapter ex_docB ex_list ?i3 ex_range ex_range ex_range]
    by simp
  from toIncomingCompletions_spec [of ex_adapter ex_docB ex_list ?i1 ex_range ex_range ex_range]
  obtain l' where l':
    "toIncomingCompletions ex_adapter ex_docB (Present (ItemList ex_list)) = Present (ItemList l')"
    "items l' = map (toIncomingCompletion ex_adapter) (items ex_list)"
    "isIncomplete l' = isIncomplete ex_list"
    by blast
  have "l' = \<lparr>isIncomplete = Present True,
       items = [\<lparr>item_label = ''abs'', item_range = Present (Simple ex_range_local)\<rparr>,
                \<lparr>item_label = ''all'',
                 item_range = Present (InsertReplace ex_range_local ex_range_local)\<rparr>,
                \<lparr>item_label = ''any'', item_range = Undefined\<rparr>]\<rparr>"
    using l'(2,3) by (cases l') (simp add: ex_list_def i1 i2 i3)
  with l'(1) show ?thesis by simp
qed

end
